theory Spec2Isabelle
  imports Main
begin

section \<open>HPU plugins of the Lightning fork: layout transform and strategy hooks\<close>

text \<open>
  The development embeds three Python files:
  \<^item> \<^verbatim>\<open>pl_examples/hpu_examples/Convolution_hpu_datamodule.py\<close>: the callback
    \<^verbatim>\<open>DataLayoutPlugin\<close> and its local function \<^verbatim>\<open>permute_params\<close>;
  \<^item> \<^verbatim>\<open>pytorch_lightning/strategies/hpu.py\<close>: \<^verbatim>\<open>HPUStrategy\<close>;
  \<^item> \<^verbatim>\<open>src/lightning/fabric/strategies/parallel_hpu.py\<close>: \<^verbatim>\<open>HPUParallelStrategy\<close>.

  Exceptions are values of the type \<open>error\<close>; a function that may raise returns
  \<open>error + 'a\<close> with \<open>Inl\<close> for the exception.
\<close>

datatype error =
    ValueError string
  | MisconfigurationException string
  | RuntimeError
  | IndexError
  | NameError
  | TypeError

subsection \<open>Tensors as strided views (the part of torch the example relies on)\<close>

text \<open>
  A torch tensor is a view on a flat storage: every axis has an extent and a stride,
  and the element at an index tuple is read at the storage offset plus the sum of
  index times stride. \<^verbatim>\<open>Tensor.permute(dims)\<close> returns a view on the same storage
  whose axis number \<open>i\<close> is the axis number \<open>dims[i]\<close> of the input; it raises a
  \<^verbatim>\<open>RuntimeError\<close> unless \<open>dims\<close> is a permutation of the axis numbers.
\<close>

record axis =
  extent :: nat
  stride :: nat

record 'a tensor =
  axes :: "axis list"
  storage_offset :: nat
  storage :: "'a list"

definition ndim :: "'a tensor \<Rightarrow> nat" where
  "ndim t = length (axes t)"

definition extents :: "'a tensor \<Rightarrow> nat list" where
  "extents t = map extent (axes t)"

definition permute :: "'a tensor \<Rightarrow> nat list \<Rightarrow> error + 'a tensor" where
  "permute t dims =
     (if length dims = ndim t \<and> distinct dims \<and> list_all (\<lambda>d. d < ndim t) dims
      then Inr (t\<lparr>axes := map (\<lambda>d. axes t ! d) dims\<rparr>)
      else Inl RuntimeError)"

text \<open>
  Reading one element, \<^verbatim>\<open>t[i0, i1, ...]\<close> with one non-negative index for every axis:
  an index outside its axis raises \<^verbatim>\<open>IndexError\<close>.
\<close>

definition flat_index :: "'a tensor \<Rightarrow> nat list \<Rightarrow> nat" where
  "flat_index t idx =
     storage_offset t + sum_list (map (\<lambda>(i, a). i * stride a) (zip idx (axes t)))"

definition item :: "'a tensor \<Rightarrow> nat list \<Rightarrow> error + 'a" where
  "item t idx =
     (if length idx = ndim t \<and> list_all (\<lambda>(i, a). i < extent a) (zip idx (axes t))
          \<and> flat_index t idx < length (storage t)
      then Inr (storage t ! flat_index t idx)
      else Inl IndexError)"

text \<open>A freshly allocated (contiguous, row-major) tensor of a given shape.\<close>

fun contiguous_axes :: "nat list \<Rightarrow> axis list" where
  "contiguous_axes [] = []"
| "contiguous_axes (n # ns) = \<lparr>extent = n, stride = prod_list ns\<rparr> # contiguous_axes ns"

definition contiguous :: "nat list \<Rightarrow> 'a list \<Rightarrow> 'a tensor" where
  "contiguous shape xs = \<lparr>axes = contiguous_axes shape, storage_offset = 0, storage = xs\<rparr>"

subsection \<open>The model as the callback sees it\<close>

text \<open>
  The callback uses two things of the model: \<^verbatim>\<open>model.named_parameters()\<close>, the
  sequence of (name, parameter) pairs, and \<^verbatim>\<open>model.children()\<close>, the direct
  submodules, of which only the outcome of the \<^verbatim>\<open>isinstance\<close> chain matters.
\<close>

datatype layer = Conv1d | Conv2d | Conv3d | OtherLayer

record 'a model =
  children :: "layer list"
  named_parameters :: "(string \<times> 'a tensor) list"

text \<open>
  \<^verbatim>\<open>permute_params(model, to_filters_last)\<close>: the loop over the named parameters,
  assigning \<^verbatim>\<open>param.data\<close> of every parameter with \<^verbatim>\<open>param.ndim == 4\<close>.
\<close>

fun permute_params_loop ::
  "(string \<times> 'a tensor) list \<Rightarrow> bool \<Rightarrow> error + (string \<times> 'a tensor) list" where
  "permute_params_loop [] to_filters_last = Inr []"
| "permute_params_loop ((name, param) # rest) to_filters_last =
     (if ndim param = 4 then
        (case (if to_filters_last then permute param [2, 3, 1, 0]
               else permute param [3, 2, 0, 1]) of
           Inl e \<Rightarrow> Inl e
         | Inr data \<Rightarrow>
             (case permute_params_loop rest to_filters_last of
                Inl e \<Rightarrow> Inl e
              | Inr rest' \<Rightarrow> Inr ((name, data) # rest')))
      else
        (case permute_params_loop rest to_filters_last of
           Inl e \<Rightarrow> Inl e
         | Inr rest' \<Rightarrow> Inr ((name, param) # rest')))"

definition permute_params :: "'a model \<Rightarrow> bool \<Rightarrow> error + 'a model" where
  "permute_params model to_filters_last =
     (case permute_params_loop (named_parameters model) to_filters_last of
        Inl e \<Rightarrow> Inl e
      | Inr ps \<Rightarrow> Inr (model\<lparr>named_parameters := ps\<rparr>))"

text \<open>
  \<^verbatim>\<open>DataLayoutPlugin.__init__(model)\<close>: the loop over \<^verbatim>\<open>model.children()\<close>. The
  state is the model and the lines printed so far; \<open>hpu_available\<close> is the module
  constant \<^verbatim>\<open>_HPU_AVAILABLE\<close>.
\<close>

fun DataLayoutPlugin_loop ::
  "bool \<Rightarrow> layer list \<Rightarrow> 'a model \<times> string list \<Rightarrow> error + ('a model \<times> string list)" where
  "DataLayoutPlugin_loop hpu_available [] (model, out) = Inr (model, out)"
| "DataLayoutPlugin_loop hpu_available (l # ls) (model, out) =
     (case l of
        Conv1d \<Rightarrow>
          DataLayoutPlugin_loop hpu_available ls (model, out @ [''Found conv1d layer........''])
      | Conv2d \<Rightarrow>
          (if hpu_available then
             (case permute_params model True of
                Inl e \<Rightarrow> Inl e
              | Inr model' \<Rightarrow>
                  DataLayoutPlugin_loop hpu_available ls
                    (model', out @ [''Found conv2d layer........'']))
           else
             DataLayoutPlugin_loop hpu_available ls (model, out @ [''Found conv2d layer........'']))
      | Conv3d \<Rightarrow>
          DataLayoutPlugin_loop hpu_available ls
            (model, out @ [''$  Found conv3d layer........''])
      | OtherLayer \<Rightarrow> DataLayoutPlugin_loop hpu_available ls (model, out))"

definition DataLayoutPlugin_init ::
  "bool \<Rightarrow> 'a model \<Rightarrow> string list \<Rightarrow> error + ('a model \<times> string list)" where
  "DataLayoutPlugin_init hpu_available model out =
     DataLayoutPlugin_loop hpu_available (children model) (model, out)"

text \<open>
  What one pass of \<^verbatim>\<open>permute_params\<close> assigns to \<^verbatim>\<open>param.data\<close>, written as a
  total function on one tensor (a specification, related to the loop by
  \<open>permute_params_loop_eq\<close> below).
\<close>

definition assigned_data :: "bool \<Rightarrow> 'a tensor \<Rightarrow> 'a tensor" where
  "assigned_data to_filters_last param =
     (if ndim param = 4 then
        param\<lparr>axes := (if to_filters_last
                         then [axes param ! 2, axes param ! 3, axes param ! 1, axes param ! 0]
                         else [axes param ! 3, axes param ! 2, axes param ! 0, axes param ! 1])\<rparr>
      else param)"

text \<open>
  The gating property as the specification words it: with the probe true every rank-4
  parameter is permuted to filters-last exactly once and the others are untouched; with
  the probe false nothing changes.
\<close>

definition spec_gated_setup :: "bool \<Rightarrow> 'a model \<Rightarrow> 'a model" where
  "spec_gated_setup hpu_available model =
     (if hpu_available
      then model\<lparr>named_parameters :=
             map (\<lambda>(name, param). (name, assigned_data True param)) (named_parameters model)\<rparr>
      else model)"

subsection \<open>\<^verbatim>\<open>HPUStrategy\<close> (single device)\<close>

text \<open>
  Python values that the strategies only pass along are kept abstract: an object is its
  identity, a class its name.
\<close>

datatype pyval =
    PyNone
  | PyClass string
  | PyObj nat
  | PyInt int
  | PyStr string
  | PyTuple "pyval list"
  | PyDict "(string \<times> pyval) list"

record hpu_strategy =
  optimizers :: "pyval list"

text \<open>
  \<^verbatim>\<open>HPUStrategy.setup_optimizers(trainer)\<close>. The superclass method is not part of
  the file and is a parameter: it may raise, and it returns the strategy with its
  optimizers set up.
\<close>

definition HPUStrategy_setup_optimizers ::
  "('t \<Rightarrow> hpu_strategy \<Rightarrow> error + hpu_strategy) \<Rightarrow> 't \<Rightarrow> hpu_strategy \<Rightarrow> error + hpu_strategy" where
  "HPUStrategy_setup_optimizers super_setup_optimizers trainer self =
     (case super_setup_optimizers trainer self of
        Inl e \<Rightarrow> Inl e
      | Inr self1 \<Rightarrow>
          (if length (optimizers self1) > 1
           then Inl (MisconfigurationException ''HPUs currently only support one optimizer.'')
           else Inr self1))"

subsection \<open>\<^verbatim>\<open>HPUParallelStrategy\<close> (distributed)\<close>

text \<open>
  The module constants \<^verbatim>\<open>_HPU_AVAILABLE\<close> and \<^verbatim>\<open>_TORCH_LESSER_EQUAL_1_13_1\<close>, which
  the file imports.
\<close>

record module_consts =
  HPU_AVAILABLE :: bool
  TORCH_LESSER_EQUAL_1_13_1 :: bool

text \<open>
  The state the methods act on: \<^verbatim>\<open>os.environ\<close>, the two attributes of the strategy
  object that the methods read, and the calls made so far to the accelerator runtime
  and, where a test double records them, to the superclass.
\<close>

datatype event = MarkStep | SuperCall string "(string \<times> pyval) list"

record pstate =
  environ :: "string \<rightharpoonup> string"
  process_group_backend :: "string option"
  local_rank :: int
  trace :: "event list"

text \<open>\<^verbatim>\<open>str\<close> of a Python integer.\<close>

definition digit_char :: "nat \<Rightarrow> char" where
  "digit_char d = ''0123456789'' ! d"

fun str_nat :: "nat \<Rightarrow> string" where
  "str_nat n = (if n < 10 then [digit_char n] else str_nat (n div 10) @ [digit_char (n mod 10)])"

declare str_nat.simps [simp del]

definition str_int :: "int \<Rightarrow> string" where
  "str_int i = (if i < 0 then CHR ''-'' # str_nat (nat (- i)) else str_nat (nat i))"

text \<open>
  \<^verbatim>\<open>HPUParallelStrategy.__init__\<close>: \<open>args\<close> stands for the arguments, all of which are
  forwarded unchanged to the superclass initialiser, a parameter of the model.
\<close>

definition HPUParallelStrategy_init ::
  "module_consts \<Rightarrow> ('args \<Rightarrow> pstate \<Rightarrow> error + pstate) \<Rightarrow> 'args \<Rightarrow> pstate \<Rightarrow> error + pstate" where
  "HPUParallelStrategy_init c super_init args self =
     (if \<not> HPU_AVAILABLE c
      then Inl (ValueError ''`HPUParallelStrategy` requires HPU devices to run'')
      else super_init args (self\<lparr>process_group_backend := Some ''hccl''\<rparr>))"

definition HPUParallelStrategy_setup_environment ::
  "(pstate \<Rightarrow> error + pstate) \<Rightarrow> pstate \<Rightarrow> error + pstate" where
  "HPUParallelStrategy_setup_environment super_setup_environment self =
     (let s1 = self\<lparr>environ := (environ self)(''ID'' \<mapsto> str_int (local_rank self))\<rparr>;
          s2 = (if process_group_backend s1 = Some ''hccl''
                then s1\<lparr>environ := (environ s1)(''HCCL_DISTRIBUTED_BACKEND'' \<mapsto> str_int 1)\<rparr>
                else s1)
      in super_setup_environment s2)"

text \<open>
  \<^verbatim>\<open>htcore.mark_step()\<close>: the name \<^verbatim>\<open>htcore\<close> is bound only by the conditional
  import under \<^verbatim>\<open>_HPU_AVAILABLE\<close>.
\<close>

definition htcore_mark_step :: "module_consts \<Rightarrow> pstate \<Rightarrow> error + pstate" where
  "htcore_mark_step c s =
     (if HPU_AVAILABLE c then Inr (s\<lparr>trace := trace s @ [MarkStep]\<rparr>) else Inl NameError)"

text \<open>
  \<^verbatim>\<open>backward\<close> and \<^verbatim>\<open>optimizer_step\<close>: the superclass methods are parameters that
  receive the keyword arguments of the call.
\<close>

definition HPUParallelStrategy_backward ::
  "module_consts \<Rightarrow> ((string \<times> pyval) list \<Rightarrow> pstate \<Rightarrow> error + pstate) \<Rightarrow>
     pyval \<Rightarrow> pyval \<Rightarrow> pyval list \<Rightarrow> (string \<times> pyval) list \<Rightarrow> pstate \<Rightarrow> error + pstate" where
  "HPUParallelStrategy_backward c super_backward tensor module args kwargs self =
     (case super_backward
             [(''tensor'', PyClass ''Tensor''), (''module'', module),
              (''args'', PyTuple args), (''kwargs'', PyDict kwargs)] self of
        Inl e \<Rightarrow> Inl e
      | Inr s1 \<Rightarrow>
          (if TORCH_LESSER_EQUAL_1_13_1 c then htcore_mark_step c s1 else Inr s1))"

definition HPUParallelStrategy_optimizer_step ::
  "module_consts \<Rightarrow> ((string \<times> pyval) list \<Rightarrow> pstate \<Rightarrow> error + (pyval \<times> pstate)) \<Rightarrow>
     pyval \<Rightarrow> (string \<times> pyval) list \<Rightarrow> pstate \<Rightarrow> error + (pyval \<times> pstate)" where
  "HPUParallelStrategy_optimizer_step c super_optimizer_step optimizer kwargs self =
     (case super_optimizer_step [(''optimizer'', optimizer), (''kwargs'', PyDict kwargs)] self of
        Inl e \<Rightarrow> Inl e
      | Inr (optimizer_output, s1) \<Rightarrow>
          (if TORCH_LESSER_EQUAL_1_13_1 c
           then (case htcore_mark_step c s1 of
                   Inl e \<Rightarrow> Inl e
                 | Inr s2 \<Rightarrow> Inr (optimizer_output, s2))
           else Inr (optimizer_output, s1)))"

definition environ_pop :: "string \<Rightarrow> pstate \<Rightarrow> pstate" where
  "environ_pop key s = s\<lparr>environ := (environ s)(key := None)\<rparr>"

definition HPUParallelStrategy_teardown ::
  "(pstate \<Rightarrow> error + pstate) \<Rightarrow> pstate \<Rightarrow> error + pstate" where
  "HPUParallelStrategy_teardown super_teardown self =
     (case super_teardown self of
        Inl e \<Rightarrow> Inl e
      | Inr s1 \<Rightarrow> Inr (environ_pop ''HCCL_DISTRIBUTED_BACKEND'' (environ_pop ''ID'' s1)))"

subsection \<open>Test doubles and example inputs\<close>

text \<open>A superclass method that only records the keyword arguments it is called with.\<close>

definition recording_super :: "string \<Rightarrow> (string \<times> pyval) list \<Rightarrow> pstate \<Rightarrow> error + pstate" where
  "recording_super name kw s = Inr (s\<lparr>trace := trace s @ [SuperCall name kw]\<rparr>)"

definition recording_super_step ::
  "pyval \<Rightarrow> (string \<times> pyval) list \<Rightarrow> pstate \<Rightarrow> error + (pyval \<times> pstate)" where
  "recording_super_step out kw s =
     Inr (out, s\<lparr>trace := trace s @ [SuperCall ''optimizer_step'' kw]\<rparr>)"

definition fresh_process :: "int \<Rightarrow> pstate" where
  "fresh_process rank =
     \<lparr>environ = Map.empty, process_group_backend = Some ''hccl'', local_rank = rank, trace = []\<rparr>"

text \<open>
  The model of the example script, \<^verbatim>\<open>ConvolutionOnHPU\<close>: a \<^verbatim>\<open>Conv2d(1, 16, 3)\<close>
  without bias and a \<^verbatim>\<open>Linear(28 * 28 * 16, 10)\<close>; the weights are taken as zero.
\<close>

definition conv1_weight :: "int tensor" where
  "conv1_weight = contiguous [16, 1, 3, 3] (replicate 144 0)"

definition ConvolutionOnHPU :: "int model" where
  "ConvolutionOnHPU =
     \<lparr>children = [Conv2d, OtherLayer],
      named_parameters =
        [(''conv1.weight'', conv1_weight),
         (''l1.weight'', contiguous [10, 12544] (replicate 125440 0)),
         (''l1.bias'', contiguous [10] (replicate 10 0))]\<rparr>"

text \<open>The same convolution wrapped in a container, and a model with two convolutions.\<close>

definition nested_conv_model :: "int model" where
  "nested_conv_model =
     \<lparr>children = [OtherLayer], named_parameters = [(''net.0.weight'', conv1_weight)]\<rparr>"

definition two_conv_model :: "int model" where
  "two_conv_model =
     \<lparr>children = [Conv2d, Conv2d],
      named_parameters =
        [(''conv1.weight'', conv1_weight),
         (''conv2.weight'', contiguous [8, 16, 3, 3] (replicate 1152 0))]\<rparr>"

text \<open>A superclass \<^verbatim>\<open>setup_optimizers\<close> that configures the given optimizers.\<close>

definition super_sets_optimizers ::
  "pyval list \<Rightarrow> unit \<Rightarrow> hpu_strategy \<Rightarrow> error + hpu_strategy" where
  "super_sets_optimizers os trainer self = Inr (self\<lparr>optimizers := os\<rparr>)"

text \<open>The module constants on a machine with the accelerator, for an old and a new torch.\<close>

definition torch_1_13 :: module_consts where
  "torch_1_13 = \<lparr>HPU_AVAILABLE = True, TORCH_LESSER_EQUAL_1_13_1 = True\<rparr>"

definition torch_2_0 :: module_consts where
  "torch_2_0 = \<lparr>HPU_AVAILABLE = True, TORCH_LESSER_EQUAL_1_13_1 = False\<rparr>"

text \<open>The keyword arguments of a call \<^verbatim>\<open>backward(tensor, module)\<close> without further arguments, as the superclass receives them.\<close>

definition backward_keywords :: "pyval \<Rightarrow> (string \<times> pyval) list" where
  "backward_keywords module =
     [(''tensor'', PyClass ''Tensor''), (''module'', module),
      (''args'', PyTuple []), (''kwargs'', PyDict [])]"

text \<open>The state of a fresh process of local rank 3 after \<^verbatim>\<open>setup_environment\<close> with the recording superclass.\<close>

definition after_setup :: pstate where
  "after_setup =
     \<lparr>environ = [''ID'' \<mapsto> ''3'', ''HCCL_DISTRIBUTED_BACKEND'' \<mapsto> ''1''],
      process_group_backend = Some ''hccl'', local_rank = 3,
      trace = [SuperCall ''setup_environment'' []]\<rparr>"

section \<open>Properties\<close>

subsection \<open>The tensor permutations\<close>

lemma ndim4_axes: "ndim t = 4 \<Longrightarrow> \<exists>a0 a1 a2 a3. axes t = [a0, a1, a2, a3]"
  by (auto simp: ndim_def numeral_eq_Suc length_Suc_conv)

lemma permute_forward: "ndim t = 4 \<Longrightarrow> permute t [2, 3, 1, 0] = Inr (assigned_data True t)"
  by (simp add: permute_def assigned_data_def)

lemma permute_inverse: "ndim t = 4 \<Longrightarrow> permute t [3, 2, 0, 1] = Inr (assigned_data False t)"
  by (simp add: permute_def assigned_data_def)

lemma ndim_assigned_data: "ndim (assigned_data f t) = ndim t"
  by (simp add: assigned_data_def ndim_def)

lemma assigned_data_other_rank: "ndim t \<noteq> 4 \<Longrightarrow> assigned_data f t = t"
  by (simp add: assigned_data_def)

lemma inverse_forward: "assigned_data False (assigned_data True t) = t"
proof (cases "ndim t = 4")
  case True
  then obtain a0 a1 a2 a3 where "axes t = [a0, a1, a2, a3]"
    using ndim4_axes by blast
  then show ?thesis
    by (simp add: assigned_data_def ndim_def)
next
  case False
  then show ?thesis by (simp add: assigned_data_def)
qed

lemma extents_forward:
  assumes "ndim t = 4"
  shows "extents (assigned_data True t) = [extents t ! 2, extents t ! 3, extents t ! 1, extents t ! 0]"
proof -
  obtain a0 a1 a2 a3 where "axes t = [a0, a1, a2, a3]"
    using assms ndim4_axes by blast
  then show ?thesis
    by (simp add: assigned_data_def ndim_def extents_def)
qed

lemma extents_inverse:
  assumes "ndim t = 4"
  shows "extents (assigned_data False t) = [extents t ! 3, extents t ! 2, extents t ! 0, extents t ! 1]"
proof -
  obtain a0 a1 a2 a3 where "axes t = [a0, a1, a2, a3]"
    using assms ndim4_axes by blast
  then show ?thesis
    by (simp add: assigned_data_def ndim_def extents_def)
qed

lemma item_forward:
  assumes "ndim t = 4"
  shows "item (assigned_data True t) [r, s, c, k] = item t [k, c, r, s]"
proof -
  obtain a0 a1 a2 a3 where ax: "axes t = [a0, a1, a2, a3]"
    using assms ndim4_axes by blast
  have fi: "flat_index (assigned_data True t) [r, s, c, k] = flat_index t [k, c, r, s]"
    by (simp add: assigned_data_def ndim_def flat_index_def ax)
  show ?thesis
    unfolding item_def fi
    by (auto simp add: assigned_data_def ndim_def ax)
qed

lemma item_inverse:
  assumes "ndim t = 4"
  shows "item (assigned_data False t) [k, c, r, s] = item t [r, s, c, k]"
proof -
  obtain a0 a1 a2 a3 where ax: "axes t = [a0, a1, a2, a3]"
    using assms ndim4_axes by blast
  have fi: "flat_index (assigned_data False t) [k, c, r, s] = flat_index t [r, s, c, k]"
    by (simp add: assigned_data_def ndim_def flat_index_def ax)
  show ?thesis
    unfolding item_def fi
    by (auto simp add: assigned_data_def ndim_def ax)
qed

lemma ndim_extents: "ndim t = length (extents t)"
  by (simp add: ndim_def extents_def)

subsection \<open>The loop of \<open>permute_params\<close>\<close>

lemma permute_params_loop_eq:
  "permute_params_loop ps f = Inr (map (\<lambda>(n, p). (n, assigned_data f p)) ps)"
proof (induction ps)
  case Nil
  show ?case by simp
next
  case (Cons np ps)
  obtain n p where np: "np = (n, p)" by (cases np)
  show ?case
  proof (cases "ndim p = 4")
    case True
    then show ?thesis
      using Cons.IH by (cases f) (simp_all add: np permute_forward permute_inverse del: One_nat_def)
  next
    case False
    then show ?thesis
      using Cons.IH by (simp add: np assigned_data_def)
  qed
qed

lemma permute_params_eq:
  "permute_params m f =
     Inr (m\<lparr>named_parameters := map (\<lambda>(n, p). (n, assigned_data f p)) (named_parameters m)\<rparr>)"
  by (simp add: permute_params_def permute_params_loop_eq)

lemma permute_params_nth:
  assumes "i < length (named_parameters m)" and "named_parameters m ! i = (name, T)"
  shows "\<exists>m'. permute_params m f = Inr m' \<and> children m' = children m
           \<and> length (named_parameters m') = length (named_parameters m)
           \<and> named_parameters m' ! i = (name, assigned_data f T)"
  using assms by (simp add: permute_params_eq)

lemma permute_params_True: "permute_params m True = Inr (spec_gated_setup True m)"
  by (simp add: permute_params_eq spec_gated_setup_def)

lemma map_inverse_forward:
  "map (\<lambda>(n, p). (n, assigned_data False p)) (map (\<lambda>(n, p). (n, assigned_data True p)) ps) = ps"
  by (induction ps) (auto simp: inverse_forward)

text \<open>
  Claim C1 (round trip). For every rank-4 parameter \<open>T\<close> of a model, at any position
  \<open>i\<close> of its named parameters: \<^verbatim>\<open>permute_params(model, True)\<close> returns, and puts
  there the tensor \<open>T1\<close> that \<^verbatim>\<open>T.permute((2, 3, 1, 0))\<close> yields; a following
  \<^verbatim>\<open>permute_params(model, False)\<close> returns and puts \<open>T\<close> back: same extents, same
  element at every index, in fact the same view, and the whole model is as before. A
  tensor of extents (16, 1, 3, 3) has extents (3, 3, 1, 16) in between.
\<close>
theorem permute_params_round_trip:
  assumes "i < length (named_parameters m)"
    and "named_parameters m ! i = (name, T)"
    and "ndim T = 4"
  shows "\<exists>m1 T1. permute_params m True = Inr m1 \<and> named_parameters m1 ! i = (name, T1) \<and>
           permute T [2, 3, 1, 0] = Inr T1 \<and> permute T1 [3, 2, 0, 1] = Inr T \<and>
           (extents T = [16, 1, 3, 3] \<longrightarrow> extents T1 = [3, 3, 1, 16]) \<and>
           (\<exists>m2 T2. permute_params m1 False = Inr m2 \<and> named_parameters m2 ! i = (name, T2) \<and>
              extents T2 = extents T \<and> (\<forall>idx. item T2 idx = item T idx) \<and> T2 = T \<and> m2 = m)"
proof -
  let ?m1 = "m\<lparr>named_parameters := map (\<lambda>(n, p). (n, assigned_data True p)) (named_parameters m)\<rparr>"
  let ?T1 = "assigned_data True T"
  have a: "permute_params m True = Inr ?m1"
    by (rule permute_params_eq)
  have b: "named_parameters ?m1 ! i = (name, ?T1)"
    using assms(1,2) by simp
  have c: "permute T [2, 3, 1, 0] = Inr ?T1"
    using assms(3) by (rule permute_forward)
  have d: "permute ?T1 [3, 2, 0, 1] = Inr T"
    using permute_inverse [of ?T1] assms(3) by (simp add: ndim_assigned_data inverse_forward)
  have e: "extents T = [16, 1, 3, 3] \<longrightarrow> extents ?T1 = [3, 3, 1, 16]"
    using extents_forward [OF assms(3)] by simp
  have f: "permute_params ?m1 False = Inr m"
    by (simp add: permute_params_eq comp_def split_beta inverse_forward)
  have g: "named_parameters m ! i = (name, T) \<and> extents T = extents T \<and>
           (\<forall>idx. item T idx = item T idx) \<and> T = T \<and> m = m"
    using assms(2) by simp
  from a b c d e f g show ?thesis by blast
qed


lemma ndim_conv1_weight: "ndim conv1_weight = 4"
  by (simp add: conv1_weight_def contiguous_def ndim_def)

lemma extents_conv1_weight: "extents conv1_weight = [16, 1, 3, 3]"
  by (simp add: conv1_weight_def contiguous_def extents_def)

lemma ConvolutionOnHPU_0: "named_parameters ConvolutionOnHPU ! 0 = (''conv1.weight'', conv1_weight)"
  by (simp add: ConvolutionOnHPU_def)

lemma ConvolutionOnHPU_length: "length (named_parameters ConvolutionOnHPU) = 3"
  by (simp add: ConvolutionOnHPU_def)

text \<open>
  The round trip on the model of the example script, whose first parameter is the
  convolution weight of extents (16, 1, 3, 3).
\<close>
theorem permute_params_round_trip_witness:
  "0 < length (named_parameters ConvolutionOnHPU) \<and>
   named_parameters ConvolutionOnHPU ! 0 = (''conv1.weight'', conv1_weight) \<and>
   ndim conv1_weight = 4 \<and> extents conv1_weight = [16, 1, 3, 3] \<and>
   (\<exists>m1 T1. permute_params ConvolutionOnHPU True = Inr m1 \<and>
      named_parameters m1 ! 0 = (''conv1.weight'', T1) \<and> extents T1 = [3, 3, 1, 16] \<and>
      (\<exists>m2 T2. permute_params m1 False = Inr m2 \<and>
         named_parameters m2 ! 0 = (''conv1.weight'', T2) \<and> extents T2 = [16, 1, 3, 3] \<and>
         T2 = conv1_weight \<and> m2 = ConvolutionOnHPU))"
proof -
  have h1: "0 < length (named_parameters ConvolutionOnHPU)"
    by (simp add: ConvolutionOnHPU_length)
  from permute_params_round_trip [OF h1 ConvolutionOnHPU_0 ndim_conv1_weight]
  obtain m1 T1 m2 T2 where
    "permute_params ConvolutionOnHPU True = Inr m1"
    "named_parameters m1 ! 0 = (''conv1.weight'', T1)"
    "extents conv1_weight = [16, 1, 3, 3] \<longrightarrow> extents T1 = [3, 3, 1, 16]"
    "permute_params m1 False = Inr m2"
    "named_parameters m2 ! 0 = (''conv1.weight'', T2)"
    "extents T2 = extents conv1_weight" "T2 = conv1_weight" "m2 = ConvolutionOnHPU"
    by blast
  then show ?thesis
    using h1 ConvolutionOnHPU_0 ndim_conv1_weight extents_conv1_weight by auto
qed

text \<open>
  Claim C2 (permutation correctness). For every rank-4 parameter \<open>T\<close> of a model, the
  forward pass assigns the result of the axis reorder (2, 3, 1, 0): its extents are
  \<open>(T.extent[2], T.extent[3], T.extent[1], T.extent[0])\<close> and its element at
  \<open>(r, s, c, k)\<close> is the element of \<open>T\<close> at \<open>(k, c, r, s)\<close> (an index outside the
  extents raises \<^verbatim>\<open>IndexError\<close> on both sides). The inverse pass assigns the result of
  the axis reorder (3, 2, 0, 1), of extents
  \<open>(T.extent[3], T.extent[2], T.extent[0], T.extent[1])\<close>.
\<close>
theorem permute_params_permutation_correctness:
  assumes "i < length (named_parameters m)"
    and "named_parameters m ! i = (name, T)"
    and "ndim T = 4"
  shows "\<exists>m_fwd T_fwd m_inv T_inv.
           permute_params m True = Inr m_fwd \<and> named_parameters m_fwd ! i = (name, T_fwd) \<and>
           permute T [2, 3, 1, 0] = Inr T_fwd \<and>
           extents T_fwd = [extents T ! 2, extents T ! 3, extents T ! 1, extents T ! 0] \<and>
           (\<forall>r s c k. item T_fwd [r, s, c, k] = item T [k, c, r, s]) \<and>
           permute_params m False = Inr m_inv \<and> named_parameters m_inv ! i = (name, T_inv) \<and>
           permute T [3, 2, 0, 1] = Inr T_inv \<and>
           extents T_inv = [extents T ! 3, extents T ! 2, extents T ! 0, extents T ! 1] \<and>
           (\<forall>k c r s. item T_inv [k, c, r, s] = item T [r, s, c, k])"
proof -
  from permute_params_nth [OF assms(1,2), of True]
  obtain m_fwd where fwd: "permute_params m True = Inr m_fwd"
      "named_parameters m_fwd ! i = (name, assigned_data True T)"
    by blast
  from permute_params_nth [OF assms(1,2), of False]
  obtain m_inv where inv: "permute_params m False = Inr m_inv"
      "named_parameters m_inv ! i = (name, assigned_data False T)"
    by blast
  have items: "\<forall>r s c k. item (assigned_data True T) [r, s, c, k] = item T [k, c, r, s]"
      "\<forall>k c r s. item (assigned_data False T) [k, c, r, s] = item T [r, s, c, k]"
    using assms(3) by (simp_all add: item_forward item_inverse)
  show ?thesis
    using fwd inv items permute_forward [OF assms(3)] permute_inverse [OF assms(3)]
      extents_forward [OF assms(3)] extents_inverse [OF assms(3)]
    by blast
qed

text \<open>The two reorders on the convolution weight of the example model.\<close>
theorem permute_params_permutation_correctness_witness:
  "0 < length (named_parameters ConvolutionOnHPU) \<and>
   named_parameters ConvolutionOnHPU ! 0 = (''conv1.weight'', conv1_weight) \<and>
   ndim conv1_weight = 4 \<and>
   (\<exists>m_fwd T_fwd m_inv T_inv.
      permute_params ConvolutionOnHPU True = Inr m_fwd \<and>
      named_parameters m_fwd ! 0 = (''conv1.weight'', T_fwd) \<and>
      extents T_fwd = [3, 3, 1, 16] \<and>
      item T_fwd [2, 1, 0, 5] = item conv1_weight [5, 0, 2, 1] \<and>
      permute_params ConvolutionOnHPU False = Inr m_inv \<and>
      named_parameters m_inv ! 0 = (''conv1.weight'', T_inv) \<and>
      extents T_inv = [3, 3, 16, 1])"
proof -
  have h1: "0 < length (named_parameters ConvolutionOnHPU)"
    by (simp add: ConvolutionOnHPU_length)
  from permute_params_permutation_correctness [OF h1 ConvolutionOnHPU_0 ndim_conv1_weight]
  obtain m_fwd T_fwd m_inv T_inv where
    "permute_params ConvolutionOnHPU True = Inr m_fwd"
    "named_parameters m_fwd ! 0 = (''conv1.weight'', T_fwd)"
    "extents T_fwd = [extents conv1_weight ! 2, extents conv1_weight ! 3,
                      extents conv1_weight ! 1, extents conv1_weight ! 0]"
    "\<forall>r s c k. item T_fwd [r, s, c, k] = item conv1_weight [k, c, r, s]"
    "permute_params ConvolutionOnHPU False = Inr m_inv"
    "named_parameters m_inv ! 0 = (''conv1.weight'', T_inv)"
    "extents T_inv = [extents conv1_weight ! 3, extents conv1_weight ! 2,
                      extents conv1_weight ! 0, extents conv1_weight ! 1]"
    by blast
  then show ?thesis
    using h1 ConvolutionOnHPU_0 ndim_conv1_weight by (auto simp: extents_conv1_weight)
qed

text \<open>
  Claim C4 (rank selectivity). A parameter whose rank is not 4 is left as it is by
  \<^verbatim>\<open>permute_params\<close> in either direction: the call returns, the parameter list keeps
  its length, and the parameter at that position is the same name and the same tensor.
\<close>
theorem permute_params_rank_selectivity:
  assumes "i < length (named_parameters m)"
    and "named_parameters m ! i = (name, T)"
    and "ndim T \<noteq> 4"
  shows "\<exists>m'. permute_params m to_filters_last = Inr m' \<and>
           length (named_parameters m') = length (named_parameters m) \<and>
           named_parameters m' ! i = (name, T)"
  using permute_params_nth [OF assms(1,2), of to_filters_last] assms(3)
  by (auto simp: assigned_data_other_rank)

lemma ConvolutionOnHPU_1:
  "named_parameters ConvolutionOnHPU ! 1 = (''l1.weight'', contiguous [10, 12544] (replicate 125440 0))"
  by (simp add: ConvolutionOnHPU_def)

lemma ndim_l1_weight: "ndim (contiguous [10, 12544] xs) = 2"
  by (simp add: contiguous_def ndim_def)

text \<open>The weight of the linear layer of the example model, of rank 2, in both directions.\<close>
theorem permute_params_rank_selectivity_witness:
  "1 < length (named_parameters ConvolutionOnHPU) \<and>
   ndim (contiguous [10, 12544] (replicate 125440 (0::int))) = 2 \<and>
   (\<exists>m'. permute_params ConvolutionOnHPU True = Inr m' \<and>
      named_parameters m' ! 1 = (''l1.weight'', contiguous [10, 12544] (replicate 125440 0))) \<and>
   (\<exists>m'. permute_params ConvolutionOnHPU False = Inr m' \<and>
      named_parameters m' ! 1 = (''l1.weight'', contiguous [10, 12544] (replicate 125440 0)))"
proof -
  have h1: "1 < length (named_parameters ConvolutionOnHPU)"
    by (simp add: ConvolutionOnHPU_length)
  have h3: "ndim (contiguous [10, 12544] (replicate 125440 (0::int))) \<noteq> 4"
    by (simp add: ndim_l1_weight)
  show ?thesis
    using permute_params_rank_selectivity [OF h1 ConvolutionOnHPU_1 h3, of True]
      permute_params_rank_selectivity [OF h1 ConvolutionOnHPU_1 h3, of False]
      h1 ndim_l1_weight
    by blast
qed

text \<open>
  Claim C5 (two forward passes). For a parameter of extents (16, 1, 3, 3), two calls of
  \<^verbatim>\<open>permute_params(model, True)\<close> in a row leave it with extents (1, 16, 3, 3), which
  are not the original ones: the parameter and the model differ from the input.
\<close>
theorem forward_twice_not_identity:
  assumes "i < length (named_parameters m)"
    and "named_parameters m ! i = (name, T)"
    and "extents T = [16, 1, 3, 3]"
  shows "\<exists>m1 m2 T1 T2. permute_params m True = Inr m1 \<and> named_parameters m1 ! i = (name, T1) \<and>
           extents T1 = [3, 3, 1, 16] \<and>
           permute_params m1 True = Inr m2 \<and> named_parameters m2 ! i = (name, T2) \<and>
           extents T2 = [1, 16, 3, 3] \<and> extents T2 \<noteq> extents T \<and> T2 \<noteq> T \<and> m2 \<noteq> m"
proof -
  have r4: "ndim T = 4"
    using assms(3) by (simp add: ndim_extents)
  let ?T1 = "assigned_data True T"
  let ?T2 = "assigned_data True ?T1"
  from permute_params_nth [OF assms(1,2), of True]
  obtain m1 where m1: "permute_params m True = Inr m1"
      "length (named_parameters m1) = length (named_parameters m)"
      "named_parameters m1 ! i = (name, ?T1)"
    by blast
  have i1: "i < length (named_parameters m1)"
    using assms(1) m1(2) by simp
  from permute_params_nth [OF i1 m1(3), of True]
  obtain m2 where m2: "permute_params m1 True = Inr m2"
      "named_parameters m2 ! i = (name, ?T2)"
    by blast
  have e1: "extents ?T1 = [3, 3, 1, 16]"
    using extents_forward [OF r4] assms(3) by simp
  have "ndim ?T1 = 4"
    using r4 by (simp add: ndim_assigned_data)
  from extents_forward [OF this] have e2: "extents ?T2 = [1, 16, 3, 3]"
    using e1 by simp
  have ne: "extents ?T2 \<noteq> extents T"
    using e2 assms(3) by simp
  then have neT: "?T2 \<noteq> T"
    by auto
  have "m2 \<noteq> m"
  proof
    assume "m2 = m"
    then have "?T2 = T" using m2(2) assms(2) by simp
    then show False using neT by simp
  qed
  then show ?thesis
    using m1(1,3) m2 e1 e2 ne neT by blast
qed

text \<open>Two forward passes on the example model.\<close>
theorem forward_twice_not_identity_witness:
  "0 < length (named_parameters ConvolutionOnHPU) \<and>
   named_parameters ConvolutionOnHPU ! 0 = (''conv1.weight'', conv1_weight) \<and>
   extents conv1_weight = [16, 1, 3, 3] \<and>
   (\<exists>m1 m2 T2. permute_params ConvolutionOnHPU True = Inr m1 \<and>
      permute_params m1 True = Inr m2 \<and> named_parameters m2 ! 0 = (''conv1.weight'', T2) \<and>
      extents T2 = [1, 16, 3, 3] \<and> T2 \<noteq> conv1_weight \<and> m2 \<noteq> ConvolutionOnHPU)"
proof -
  have h1: "0 < length (named_parameters ConvolutionOnHPU)"
    by (simp add: ConvolutionOnHPU_length)
  show ?thesis
    using forward_twice_not_identity [OF h1 ConvolutionOnHPU_0 extents_conv1_weight]
      h1 ConvolutionOnHPU_0 extents_conv1_weight
    by blast
qed

subsection \<open>The gated setup\<close>

lemma spec_gated_setup_False: "spec_gated_setup False m = m"
  by (simp add: spec_gated_setup_def)

lemma funpow_spec_gated_setup_False: "(spec_gated_setup False ^^ n) m = m"
  by (induction n) (simp_all add: spec_gated_setup_False)

lemma DataLayoutPlugin_loop_eq:
  "\<exists>out'. DataLayoutPlugin_loop hpu ls (m, out) =
     Inr ((spec_gated_setup hpu ^^ length (filter (\<lambda>l. l = Conv2d) ls)) m, out')"
proof (induction ls arbitrary: m out)
  case Nil
  show ?case by simp
next
  case (Cons l ls)
  show ?case
  proof (cases l)
    case Conv1d
    then show ?thesis using Cons.IH by simp
  next
    case Conv2d
    show ?thesis
    proof (cases hpu)
      case True
      then show ?thesis
        using Cons.IH [of "spec_gated_setup True m"] Conv2d
        by (simp add: permute_params_True funpow_swap1)
    next
      case False
      then show ?thesis
        using Cons.IH [of m] Conv2d by (simp add: spec_gated_setup_False)
    qed
  next
    case Conv3d
    then show ?thesis using Cons.IH by simp
  next
    case OtherLayer
    then show ?thesis using Cons.IH by simp
  qed
qed

lemma DataLayoutPlugin_init_eq:
  "\<exists>out'. DataLayoutPlugin_init hpu m out =
     Inr ((spec_gated_setup hpu ^^ length (filter (\<lambda>l. l = Conv2d) (children m))) m, out')"
  unfolding DataLayoutPlugin_init_def by (rule DataLayoutPlugin_loop_eq)

lemma no_Conv2d: "Conv2d \<notin> set ls \<Longrightarrow> filter (\<lambda>l. l = Conv2d) ls = []"
  by (induction ls) auto

lemma spec_gated_setup_nth:
  assumes "i < length (named_parameters m)" and "named_parameters m ! i = (name, T)"
  shows "if ndim T = 4
         then \<exists>T'. permute T [2, 3, 1, 0] = Inr T' \<and>
                named_parameters (spec_gated_setup True m) ! i = (name, T')
         else named_parameters (spec_gated_setup True m) ! i = (name, T)"
  using assms
  by (simp add: spec_gated_setup_def permute_forward assigned_data_other_rank del: One_nat_def)

text \<open>
  Claim C3 (gating), as amended. The constructor of \<^verbatim>\<open>DataLayoutPlugin\<close> calls
  \<^verbatim>\<open>permute_params(model, True)\<close> once for every direct child of the model that is a
  \<^verbatim>\<open>Conv2d\<close>, and only if the probe is true. Hence: for a model with exactly one
  direct \<^verbatim>\<open>Conv2d\<close> child and the probe true, the constructor returns, every rank-4
  parameter has been permuted to filters-last exactly once and every parameter of
  another rank is untouched (the result is the one the specification describes); for a
  model without a direct \<^verbatim>\<open>Conv2d\<close> child, and for any model when the probe is false,
  the constructor returns and no parameter has changed.
\<close>
theorem DataLayoutPlugin_gating:
  "(length (filter (\<lambda>l. l = Conv2d) (children m)) = 1 \<longrightarrow>
      (\<exists>m' out'. DataLayoutPlugin_init True m out = Inr (m', out') \<and>
         m' = spec_gated_setup True m \<and>
         length (named_parameters m') = length (named_parameters m) \<and>
         (\<forall>i name T. i < length (named_parameters m) \<and> named_parameters m ! i = (name, T) \<longrightarrow>
            (if ndim T = 4
             then \<exists>T'. permute T [2, 3, 1, 0] = Inr T' \<and> named_parameters m' ! i = (name, T')
             else named_parameters m' ! i = (name, T))))) \<and>
   (Conv2d \<notin> set (children m) \<longrightarrow> (\<exists>out'. DataLayoutPlugin_init True m out = Inr (m, out'))) \<and>
   (\<exists>out'. DataLayoutPlugin_init False m out = Inr (m, out'))"
proof (intro conjI impI)
  assume one: "length (filter (\<lambda>l. l = Conv2d) (children m)) = 1"
  from DataLayoutPlugin_init_eq [of True m out] one
  obtain out' where r: "DataLayoutPlugin_init True m out = Inr (spec_gated_setup True m, out')"
    by auto
  have len: "length (named_parameters (spec_gated_setup True m)) = length (named_parameters m)"
    by (simp add: spec_gated_setup_def)
  have each: "\<forall>i name T. i < length (named_parameters m) \<and> named_parameters m ! i = (name, T) \<longrightarrow>
            (if ndim T = 4
             then \<exists>T'. permute T [2, 3, 1, 0] = Inr T' \<and>
                    named_parameters (spec_gated_setup True m) ! i = (name, T')
             else named_parameters (spec_gated_setup True m) ! i = (name, T))"
    using spec_gated_setup_nth by blast
  from r len each
  show "\<exists>m' out'. DataLayoutPlugin_init True m out = Inr (m', out') \<and>
         m' = spec_gated_setup True m \<and>
         length (named_parameters m') = length (named_parameters m) \<and>
         (\<forall>i name T. i < length (named_parameters m) \<and> named_parameters m ! i = (name, T) \<longrightarrow>
            (if ndim T = 4
             then \<exists>T'. permute T [2, 3, 1, 0] = Inr T' \<and> named_parameters m' ! i = (name, T')
             else named_parameters m' ! i = (name, T)))"
    by blast
next
  assume "Conv2d \<notin> set (children m)"
  then show "\<exists>out'. DataLayoutPlugin_init True m out = Inr (m, out')"
    using DataLayoutPlugin_init_eq [of True m out] by (simp add: no_Conv2d)
next
  show "\<exists>out'. DataLayoutPlugin_init False m out = Inr (m, out')"
    using DataLayoutPlugin_init_eq [of False m out]
    by (simp add: funpow_spec_gated_setup_False)
qed



lemma ConvolutionOnHPU_children: "children ConvolutionOnHPU = [Conv2d, OtherLayer]"
  by (simp add: ConvolutionOnHPU_def)

text \<open>
  The three cases on the model of the example script (one \<^verbatim>\<open>Conv2d\<close> child) and on
  the model whose convolution sits in a container.
\<close>
theorem DataLayoutPlugin_gating_witness:
  "length (filter (\<lambda>l. l = Conv2d) (children ConvolutionOnHPU)) = 1 \<and>
   0 < length (named_parameters ConvolutionOnHPU) \<and>
   named_parameters ConvolutionOnHPU ! 0 = (''conv1.weight'', conv1_weight) \<and>
   ndim conv1_weight = 4 \<and>
   (\<exists>m' out' T'. DataLayoutPlugin_init True ConvolutionOnHPU [] = Inr (m', out') \<and>
      m' = spec_gated_setup True ConvolutionOnHPU \<and>
      permute conv1_weight [2, 3, 1, 0] = Inr T' \<and>
      named_parameters m' ! 0 = (''conv1.weight'', T')) \<and>
   Conv2d \<notin> set (children nested_conv_model) \<and>
   (\<exists>out'. DataLayoutPlugin_init True nested_conv_model [] = Inr (nested_conv_model, out')) \<and>
   (\<exists>out'. DataLayoutPlugin_init False ConvolutionOnHPU [] = Inr (ConvolutionOnHPU, out'))"
proof -
  have h1: "length (filter (\<lambda>l. l = Conv2d) (children ConvolutionOnHPU)) = 1"
    by (simp add: ConvolutionOnHPU_children)
  have h2: "0 < length (named_parameters ConvolutionOnHPU)"
    by (simp add: ConvolutionOnHPU_length)
  have h3: "Conv2d \<notin> set (children nested_conv_model)"
    by (simp add: nested_conv_model_def)
  from DataLayoutPlugin_gating [of ConvolutionOnHPU "[]"] h1
  obtain m' out' where a: "DataLayoutPlugin_init True ConvolutionOnHPU [] = Inr (m', out')"
      "m' = spec_gated_setup True ConvolutionOnHPU"
      "\<forall>i name T. i < length (named_parameters ConvolutionOnHPU) \<and>
          named_parameters ConvolutionOnHPU ! i = (name, T) \<longrightarrow>
            (if ndim T = 4
             then \<exists>T'. permute T [2, 3, 1, 0] = Inr T' \<and> named_parameters m' ! i = (name, T')
             else named_parameters m' ! i = (name, T))"
    by blast
  from a(3) h2 ConvolutionOnHPU_0
  have "if ndim conv1_weight = 4
        then \<exists>T'. permute conv1_weight [2, 3, 1, 0] = Inr T' \<and>
               named_parameters m' ! 0 = (''conv1.weight'', T')
        else named_parameters m' ! 0 = (''conv1.weight'', conv1_weight)"
    by blast
  then obtain T' where b: "permute conv1_weight [2, 3, 1, 0] = Inr T'"
      "named_parameters m' ! 0 = (''conv1.weight'', T')"
    unfolding ndim_conv1_weight by auto
  have c: "\<exists>out'. DataLayoutPlugin_init False ConvolutionOnHPU [] = Inr (ConvolutionOnHPU, out')"
    using DataLayoutPlugin_gating [of ConvolutionOnHPU "[]"] by blast
  have d: "\<exists>out'. DataLayoutPlugin_init True nested_conv_model [] = Inr (nested_conv_model, out')"
    using DataLayoutPlugin_gating [of nested_conv_model "[]"] h3 by blast
  show ?thesis
    using h1 h2 h3 ConvolutionOnHPU_0 ndim_conv1_weight a(1,2) b c d by blast
qed

lemma axes_conv1_weight:
  "axes conv1_weight =
     [\<lparr>extent = 16, stride = 9\<rparr>, \<lparr>extent = 1, stride = 9\<rparr>,
      \<lparr>extent = 3, stride = 3\<rparr>, \<lparr>extent = 3, stride = 1\<rparr>]"
  by (simp add: conv1_weight_def contiguous_def)

lemma forward_conv1_weight_differs: "assigned_data True conv1_weight \<noteq> conv1_weight"
proof
  assume "assigned_data True conv1_weight = conv1_weight"
  then have "extents (assigned_data True conv1_weight) = extents conv1_weight"
    by simp
  then show False
    using extents_forward [OF ndim_conv1_weight] by (simp add: extents_conv1_weight)
qed

text \<open>
  The gating property as first stated fails: the model whose only rank-4 parameter
  belongs to a convolution inside a container has one rank-4 parameter, the probe is
  true, and the constructor changes nothing, whereas permuting that parameter once
  gives a different model.
\<close>
theorem DataLayoutPlugin_gating_counterexample:
  "DataLayoutPlugin_init True nested_conv_model [] = Inr (nested_conv_model, []) \<and>
   named_parameters nested_conv_model = [(''net.0.weight'', conv1_weight)] \<and>
   ndim conv1_weight = 4 \<and>
   spec_gated_setup True nested_conv_model \<noteq> nested_conv_model"
proof -
  have a: "DataLayoutPlugin_init True nested_conv_model [] = Inr (nested_conv_model, [])"
    by (simp add: DataLayoutPlugin_init_def nested_conv_model_def)
  have b: "named_parameters nested_conv_model = [(''net.0.weight'', conv1_weight)]"
    by (simp add: nested_conv_model_def)
  have c: "spec_gated_setup True nested_conv_model \<noteq> nested_conv_model"
  proof
    assume "spec_gated_setup True nested_conv_model = nested_conv_model"
    then have "named_parameters (spec_gated_setup True nested_conv_model) =
               named_parameters nested_conv_model"
      by simp
    then show False
      using forward_conv1_weight_differs by (simp add: spec_gated_setup_def b)
  qed
  from a b c ndim_conv1_weight show ?thesis by blast
qed

lemma spec_gated_setup_children: "children (spec_gated_setup hpu m) = children m"
  by (simp add: spec_gated_setup_def)

text \<open>
  With two direct \<^verbatim>\<open>Conv2d\<close> children the whole model is permuted twice, so that the
  weight of extents (16, 1, 3, 3) ends with extents (1, 16, 3, 3).
\<close>
lemma DataLayoutPlugin_two_conv2d:
  "\<exists>m' T'. DataLayoutPlugin_init True two_conv_model [] =
       Inr (m', [''Found conv2d layer........'', ''Found conv2d layer........'']) \<and>
     named_parameters m' ! 0 = (''conv1.weight'', T') \<and> extents T' = [1, 16, 3, 3] \<and>
     m' \<noteq> spec_gated_setup True two_conv_model"
proof -
  let ?m1 = "spec_gated_setup True two_conv_model"
  let ?m2 = "spec_gated_setup True ?m1"
  let ?T1 = "assigned_data True conv1_weight"
  let ?T2 = "assigned_data True ?T1"
  have ch: "children two_conv_model = [Conv2d, Conv2d]"
    by (simp add: two_conv_model_def)
  have a: "DataLayoutPlugin_init True two_conv_model [] =
       Inr (?m2, [''Found conv2d layer........'', ''Found conv2d layer........''])"
    by (simp add: DataLayoutPlugin_init_def ch permute_params_True spec_gated_setup_children)
  have b: "named_parameters ?m2 ! 0 = (''conv1.weight'', ?T2)"
    by (simp add: spec_gated_setup_def two_conv_model_def)
  have c1: "named_parameters ?m1 ! 0 = (''conv1.weight'', ?T1)"
    by (simp add: spec_gated_setup_def two_conv_model_def)
  have e1: "extents ?T1 = [3, 3, 1, 16]"
    using extents_forward [OF ndim_conv1_weight] by (simp add: extents_conv1_weight)
  have "ndim ?T1 = 4"
    by (simp add: ndim_assigned_data ndim_conv1_weight)
  from extents_forward [OF this] have e2: "extents ?T2 = [1, 16, 3, 3]"
    using e1 by simp
  have "?m2 \<noteq> ?m1"
  proof
    assume "?m2 = ?m1"
    then have "named_parameters ?m2 ! 0 = named_parameters ?m1 ! 0" by simp
    then have "?T2 = ?T1" using b c1 by simp
    then have "extents ?T2 = extents ?T1" by simp
    then show False using e1 e2 by simp
  qed
  then show ?thesis using a b e2 by blast
qed

subsection \<open>\<open>HPUStrategy.setup_optimizers\<close>\<close>

lemma HPUStrategy_setup_optimizers_propagates:
  "super_setup_optimizers trainer self = Inl e \<Longrightarrow>
   HPUStrategy_setup_optimizers super_setup_optimizers trainer self = Inl e"
  by (simp add: HPUStrategy_setup_optimizers_def)

text \<open>
  Claim C6 (one optimizer). When the superclass \<^verbatim>\<open>setup_optimizers\<close> has returned,
  \<^verbatim>\<open>HPUStrategy.setup_optimizers\<close> raises if and only if the strategy then has more
  than one optimizer, and what it raises is the \<^verbatim>\<open>MisconfigurationException\<close>; with
  one optimizer or none it returns. The check is made once: the function has no loop
  and no handler, so nothing is retried.
\<close>
theorem HPUStrategy_one_optimizer:
  assumes "super_setup_optimizers trainer self = Inr self1"
  shows "((\<exists>msg. HPUStrategy_setup_optimizers super_setup_optimizers trainer self =
                  Inl (MisconfigurationException msg))
            \<longleftrightarrow> 1 < length (optimizers self1)) \<and>
         ((\<exists>e. HPUStrategy_setup_optimizers super_setup_optimizers trainer self = Inl e)
            \<longleftrightarrow> 1 < length (optimizers self1)) \<and>
         (1 < length (optimizers self1) \<longrightarrow>
            HPUStrategy_setup_optimizers super_setup_optimizers trainer self =
              Inl (MisconfigurationException ''HPUs currently only support one optimizer.'')) \<and>
         (length (optimizers self1) \<le> 1 \<longrightarrow>
            HPUStrategy_setup_optimizers super_setup_optimizers trainer self = Inr self1)"
  using assms by (simp add: HPUStrategy_setup_optimizers_def)

text \<open>Two optimizers, one optimizer and no optimizer.\<close>
theorem HPUStrategy_one_optimizer_witness:
  "super_sets_optimizers [PyObj 1, PyObj 2] () \<lparr>optimizers = []\<rparr> =
     Inr \<lparr>optimizers = [PyObj 1, PyObj 2]\<rparr> \<and>
   HPUStrategy_setup_optimizers (super_sets_optimizers [PyObj 1, PyObj 2]) ()
      \<lparr>optimizers = []\<rparr> =
     Inl (MisconfigurationException ''HPUs currently only support one optimizer.'') \<and>
   HPUStrategy_setup_optimizers (super_sets_optimizers [PyObj 1]) () \<lparr>optimizers = []\<rparr> =
     Inr \<lparr>optimizers = [PyObj 1]\<rparr> \<and>
   HPUStrategy_setup_optimizers (super_sets_optimizers []) () \<lparr>optimizers = []\<rparr> =
     Inr \<lparr>optimizers = []\<rparr>"
proof -
  have two: "super_sets_optimizers [PyObj 1, PyObj 2] () \<lparr>optimizers = []\<rparr> =
               Inr \<lparr>optimizers = [PyObj 1, PyObj 2]\<rparr>"
    by (simp add: super_sets_optimizers_def)
  have one: "super_sets_optimizers [PyObj 1] () \<lparr>optimizers = []\<rparr> =
               Inr \<lparr>optimizers = [PyObj 1]\<rparr>"
    by (simp add: super_sets_optimizers_def)
  have none: "super_sets_optimizers [] () \<lparr>optimizers = []\<rparr> = Inr \<lparr>optimizers = []\<rparr>"
    by (simp add: super_sets_optimizers_def)
  show ?thesis
    using HPUStrategy_one_optimizer
            [of "super_sets_optimizers [PyObj 1, PyObj 2]" "()" "\<lparr>optimizers = []\<rparr>"
                "\<lparr>optimizers = [PyObj 1, PyObj 2]\<rparr>", OF two]
          HPUStrategy_one_optimizer
            [of "super_sets_optimizers [PyObj 1]" "()" "\<lparr>optimizers = []\<rparr>"
                "\<lparr>optimizers = [PyObj 1]\<rparr>", OF one]
          HPUStrategy_one_optimizer
            [of "super_sets_optimizers []" "()" "\<lparr>optimizers = []\<rparr>"
                "\<lparr>optimizers = []\<rparr>", OF none]
          two
    by simp
qed

subsection \<open>\<open>HPUParallelStrategy\<close>\<close>

lemma str_int_1: "str_int 1 = ''1''"
  by (simp add: str_int_def str_nat.simps digit_char_def)

lemma str_int_3: "str_int 3 = ''3''"
  by (simp add: str_int_def str_nat.simps digit_char_def)

lemma str_int_12: "str_int 12 = ''12''"
  by (simp add: str_int_def str_nat.simps digit_char_def)

lemma str_int_neg: "str_int (- 7) = ''-7''"
  by (simp add: str_int_def str_nat.simps digit_char_def)

text \<open>
  Claim C9 (construction without the accelerator). When \<^verbatim>\<open>_HPU_AVAILABLE\<close> is false,
  \<^verbatim>\<open>HPUParallelStrategy.__init__\<close> raises the \<^verbatim>\<open>ValueError\<close> and never returns a
  strategy, whatever the superclass initialiser would do: the outcome is the same for
  every superclass initialiser, so none has run.
\<close>
theorem HPUParallelStrategy_init_unavailable:
  assumes "\<not> HPU_AVAILABLE c"
  shows "HPUParallelStrategy_init c super_init args self =
           Inl (ValueError ''`HPUParallelStrategy` requires HPU devices to run'') \<and>
         (\<forall>s. HPUParallelStrategy_init c super_init args self \<noteq> Inr s) \<and>
         HPUParallelStrategy_init c super_init args self =
           HPUParallelStrategy_init c super_init' args self"
  using assms by (simp add: HPUParallelStrategy_init_def)

text \<open>
  With a superclass initialiser that records its call, and with one that raises
  \<^verbatim>\<open>TypeError\<close>: the outcome is the \<^verbatim>\<open>ValueError\<close> in both cases.
\<close>
theorem HPUParallelStrategy_init_unavailable_witness:
  "\<not> HPU_AVAILABLE \<lparr>HPU_AVAILABLE = False, TORCH_LESSER_EQUAL_1_13_1 = True\<rparr> \<and>
   HPUParallelStrategy_init \<lparr>HPU_AVAILABLE = False, TORCH_LESSER_EQUAL_1_13_1 = True\<rparr>
      (\<lambda>args. recording_super ''__init__'' args) [] (fresh_process 0) =
     Inl (ValueError ''`HPUParallelStrategy` requires HPU devices to run'') \<and>
   HPUParallelStrategy_init \<lparr>HPU_AVAILABLE = False, TORCH_LESSER_EQUAL_1_13_1 = True\<rparr>
      (\<lambda>args s. Inl TypeError) [] (fresh_process 0) =
     Inl (ValueError ''`HPUParallelStrategy` requires HPU devices to run'')"
proof -
  have h: "\<not> HPU_AVAILABLE \<lparr>HPU_AVAILABLE = False, TORCH_LESSER_EQUAL_1_13_1 = True\<rparr>"
    by simp
  show ?thesis
    using HPUParallelStrategy_init_unavailable [OF h, of "\<lambda>args. recording_super ''__init__'' args" "[]" "fresh_process 0"]
      HPUParallelStrategy_init_unavailable [OF h, of "\<lambda>args s. Inl TypeError" "[]" "fresh_process 0"]
      h
    by blast
qed

lemma HPUParallelStrategy_init_available:
  "HPU_AVAILABLE c \<Longrightarrow>
   HPUParallelStrategy_init c super_init args self =
     super_init args (self\<lparr>process_group_backend := Some ''hccl''\<rparr>)"
  by (simp add: HPUParallelStrategy_init_def)


lemma htcore_mark_step_available:
  "HPU_AVAILABLE c \<Longrightarrow> htcore_mark_step c s = Inr (s\<lparr>trace := trace s @ [MarkStep]\<rparr>)"
  by (simp add: htcore_mark_step_def)

text \<open>
  Claim C7 (lazy-graph flush), as amended. On a machine with the accelerator:
  when the superclass \<^verbatim>\<open>backward\<close> returns, \<^verbatim>\<open>HPUParallelStrategy.backward\<close>
  returns, and \<^verbatim>\<open>htcore.mark_step\<close> has been called once after the superclass call
  if \<^verbatim>\<open>_TORCH_LESSER_EQUAL_1_13_1\<close> holds, and not at all otherwise; the same for
  \<^verbatim>\<open>optimizer_step\<close>, which returns the value of the superclass optimizer step in
  both cases.
\<close>
theorem HPUParallelStrategy_mark_step:
  assumes "HPU_AVAILABLE c"
  shows "(super_backward
            [(''tensor'', PyClass ''Tensor''), (''module'', module),
             (''args'', PyTuple args), (''kwargs'', PyDict kwargs)] self = Inr s1 \<longrightarrow>
          HPUParallelStrategy_backward c super_backward tensor module args kwargs self =
            Inr (if TORCH_LESSER_EQUAL_1_13_1 c then s1\<lparr>trace := trace s1 @ [MarkStep]\<rparr>
                 else s1)) \<and>
         (super_optimizer_step
            [(''optimizer'', optimizer), (''kwargs'', PyDict kwargs')] self = Inr (out, s2) \<longrightarrow>
          HPUParallelStrategy_optimizer_step c super_optimizer_step optimizer kwargs' self =
            Inr (out, if TORCH_LESSER_EQUAL_1_13_1 c then s2\<lparr>trace := trace s2 @ [MarkStep]\<rparr>
                      else s2))"
  using assms
  by (simp add: HPUParallelStrategy_backward_def HPUParallelStrategy_optimizer_step_def
      htcore_mark_step_available)

text \<open>With torch 1.13 and recording superclass methods, the flush follows the superclass call.\<close>
theorem HPUParallelStrategy_mark_step_witness:
  "HPU_AVAILABLE torch_1_13 \<and>
   HPUParallelStrategy_backward torch_1_13 (recording_super ''backward'')
       (PyObj 7) PyNone [] [] (fresh_process 0) =
     Inr ((fresh_process 0)
            \<lparr>trace := [SuperCall ''backward'' (backward_keywords PyNone), MarkStep]\<rparr>) \<and>
   HPUParallelStrategy_optimizer_step torch_1_13 (recording_super_step (PyInt 5))
       (PyObj 8) [] (fresh_process 0) =
     Inr (PyInt 5, (fresh_process 0)
            \<lparr>trace := [SuperCall ''optimizer_step''
                          [(''optimizer'', PyObj 8), (''kwargs'', PyDict [])], MarkStep]\<rparr>)"
proof -
  have h: "HPU_AVAILABLE torch_1_13"
    by (simp add: torch_1_13_def)
  have t: "TORCH_LESSER_EQUAL_1_13_1 torch_1_13"
    by (simp add: torch_1_13_def)
  have b: "recording_super ''backward''
             [(''tensor'', PyClass ''Tensor''), (''module'', PyNone),
              (''args'', PyTuple []), (''kwargs'', PyDict [])] (fresh_process 0) =
           Inr ((fresh_process 0)\<lparr>trace := [SuperCall ''backward'' (backward_keywords PyNone)]\<rparr>)"
    by (simp add: recording_super_def fresh_process_def backward_keywords_def)
  have o: "recording_super_step (PyInt 5)
             [(''optimizer'', PyObj 8), (''kwargs'', PyDict [])] (fresh_process 0) =
           Inr (PyInt 5, (fresh_process 0)
                  \<lparr>trace := [SuperCall ''optimizer_step''
                                [(''optimizer'', PyObj 8), (''kwargs'', PyDict [])]]\<rparr>)"
    by (simp add: recording_super_step_def fresh_process_def)
  show ?thesis
    using HPUParallelStrategy_mark_step [OF h,
            where super_backward = "recording_super ''backward''" and module = PyNone
              and args = "[]" and kwargs = "[]" and self = "fresh_process 0"
              and tensor = "PyObj 7"
              and super_optimizer_step = "recording_super_step (PyInt 5)"
              and optimizer = "PyObj 8" and kwargs' = "[]"]
          h t b o
    by simp
qed

text \<open>
  The flush is not made after every backward call and optimizer step: with a torch
  newer than 1.13.1 both methods return and the trace holds the superclass call only.
\<close>
theorem HPUParallelStrategy_mark_step_counterexample:
  "HPUParallelStrategy_backward torch_2_0 (recording_super ''backward'')
       (PyObj 7) PyNone [] [] (fresh_process 0) =
     Inr ((fresh_process 0)\<lparr>trace := [SuperCall ''backward'' (backward_keywords PyNone)]\<rparr>) \<and>
   MarkStep \<notin> set [SuperCall ''backward'' (backward_keywords PyNone)] \<and>
   HPUParallelStrategy_optimizer_step torch_2_0 (recording_super_step (PyInt 5))
       (PyObj 8) [] (fresh_process 0) =
     Inr (PyInt 5, (fresh_process 0)
            \<lparr>trace := [SuperCall ''optimizer_step''
                          [(''optimizer'', PyObj 8), (''kwargs'', PyDict [])]]\<rparr>)"
  by (simp add: HPUParallelStrategy_backward_def HPUParallelStrategy_optimizer_step_def
      torch_2_0_def recording_super_def recording_super_step_def fresh_process_def
      backward_keywords_def)


lemma HPUParallelStrategy_setup_environment_sets:
  "\<exists>E. HPUParallelStrategy_setup_environment super_setup_environment self =
          super_setup_environment (self\<lparr>environ := E\<rparr>) \<and>
        E ''ID'' = Some (str_int (local_rank self)) \<and>
        E ''HCCL_DISTRIBUTED_BACKEND'' =
          (if process_group_backend self = Some ''hccl'' then Some ''1''
           else environ self ''HCCL_DISTRIBUTED_BACKEND'') \<and>
        (\<forall>k. k \<noteq> ''ID'' \<and> k \<noteq> ''HCCL_DISTRIBUTED_BACKEND'' \<longrightarrow> E k = environ self k)"
proof (cases "process_group_backend self = Some ''hccl''")
  case True
  let ?E = "(environ self)(''ID'' \<mapsto> str_int (local_rank self),
              ''HCCL_DISTRIBUTED_BACKEND'' \<mapsto> ''1'')"
  show ?thesis
    by (rule exI [of _ ?E])
       (simp add: HPUParallelStrategy_setup_environment_def Let_def str_int_1 True)
next
  case False
  let ?E = "(environ self)(''ID'' \<mapsto> str_int (local_rank self))"
  show ?thesis
    by (rule exI [of _ ?E])
       (simp add: HPUParallelStrategy_setup_environment_def Let_def False)
qed

lemma HPUParallelStrategy_teardown_pops:
  assumes "super_teardown s = Inr s2"
  shows "\<exists>s3. HPUParallelStrategy_teardown super_teardown s = Inr s3 \<and>
           environ s3 ''ID'' = None \<and> environ s3 ''HCCL_DISTRIBUTED_BACKEND'' = None \<and>
           (\<forall>k. k \<noteq> ''ID'' \<and> k \<noteq> ''HCCL_DISTRIBUTED_BACKEND'' \<longrightarrow> environ s3 k = environ s2 k)"
  using assms by (simp add: HPUParallelStrategy_teardown_def environ_pop_def)

text \<open>
  Claim C8 (environment variables). If the superclass \<^verbatim>\<open>setup_environment\<close> leaves
  the two variables alone and returns, then after
  \<^verbatim>\<open>HPUParallelStrategy.setup_environment\<close> the variable \<^verbatim>\<open>ID\<close> is \<^verbatim>\<open>str\<close> of the
  local rank and, when the process-group backend is \<^verbatim>\<open>"hccl"\<close>,
  \<^verbatim>\<open>HCCL_DISTRIBUTED_BACKEND\<close> is \<^verbatim>\<open>"1"\<close>. A \<^verbatim>\<open>teardown\<close> in any later state in
  which the superclass \<^verbatim>\<open>teardown\<close> returns, returns, and neither variable is set
  afterwards.
\<close>
theorem HPUParallelStrategy_environment_lifecycle:
  assumes fr: "\<forall>s s'. super_setup_environment s = Inr s' \<longrightarrow>
                    environ s' ''ID'' = environ s ''ID'' \<and>
                    environ s' ''HCCL_DISTRIBUTED_BACKEND'' = environ s ''HCCL_DISTRIBUTED_BACKEND''"
    and su: "HPUParallelStrategy_setup_environment super_setup_environment self = Inr s1"
    and td: "super_teardown s_later = Inr s2"
  shows "environ s1 ''ID'' = Some (str_int (local_rank self)) \<and>
         (process_group_backend self = Some ''hccl'' \<longrightarrow>
            environ s1 ''HCCL_DISTRIBUTED_BACKEND'' = Some ''1'') \<and>
         (\<exists>s3. HPUParallelStrategy_teardown super_teardown s_later = Inr s3 \<and>
            environ s3 ''ID'' = None \<and> environ s3 ''HCCL_DISTRIBUTED_BACKEND'' = None)"
proof -
  from HPUParallelStrategy_setup_environment_sets [of super_setup_environment self]
  obtain E where E:
    "HPUParallelStrategy_setup_environment super_setup_environment self =
       super_setup_environment (self\<lparr>environ := E\<rparr>)"
    "E ''ID'' = Some (str_int (local_rank self))"
    "E ''HCCL_DISTRIBUTED_BACKEND'' =
       (if process_group_backend self = Some ''hccl'' then Some ''1''
        else environ self ''HCCL_DISTRIBUTED_BACKEND'')"
    by blast
  from E(1) su have "super_setup_environment (self\<lparr>environ := E\<rparr>) = Inr s1"
    by simp
  with fr have kept: "environ s1 ''ID'' = E ''ID''"
      "environ s1 ''HCCL_DISTRIBUTED_BACKEND'' = E ''HCCL_DISTRIBUTED_BACKEND''"
    by fastforce+
  from HPUParallelStrategy_teardown_pops [of super_teardown s_later s2] td
  have pops: "\<exists>s3. HPUParallelStrategy_teardown super_teardown s_later = Inr s3 \<and>
            environ s3 ''ID'' = None \<and> environ s3 ''HCCL_DISTRIBUTED_BACKEND'' = None"
    by blast
  show ?thesis
    using kept E(2,3) pops by simp
qed

lemma setup_fresh_process:
  "HPUParallelStrategy_setup_environment (recording_super ''setup_environment'' [])
     (fresh_process 3) = Inr after_setup"
  by (simp add: HPUParallelStrategy_setup_environment_def Let_def recording_super_def
      fresh_process_def after_setup_def str_int_1 str_int_3)

text \<open>Set-up and teardown of a fresh process of local rank 3.\<close>
theorem HPUParallelStrategy_environment_lifecycle_witness:
  "HPUParallelStrategy_setup_environment (recording_super ''setup_environment'' [])
     (fresh_process 3) = Inr after_setup \<and>
   environ after_setup ''ID'' = Some ''3'' \<and>
   environ after_setup ''HCCL_DISTRIBUTED_BACKEND'' = Some ''1'' \<and>
   (\<exists>s3. HPUParallelStrategy_teardown (recording_super ''teardown'' []) after_setup = Inr s3 \<and>
      environ s3 ''ID'' = None \<and> environ s3 ''HCCL_DISTRIBUTED_BACKEND'' = None)"
proof -
  have fr: "\<forall>s s'. recording_super ''setup_environment'' [] s = Inr s' \<longrightarrow>
                 environ s' ''ID'' = environ s ''ID'' \<and>
                 environ s' ''HCCL_DISTRIBUTED_BACKEND'' = environ s ''HCCL_DISTRIBUTED_BACKEND''"
    by (auto simp: recording_super_def)
  have td: "recording_super ''teardown'' [] after_setup =
              Inr (after_setup\<lparr>trace := trace after_setup @ [SuperCall ''teardown'' []]\<rparr>)"
    by (simp add: recording_super_def)
  have b: "process_group_backend (fresh_process 3) = Some ''hccl''"
    by (simp add: fresh_process_def)
  have r: "str_int (local_rank (fresh_process 3)) = ''3''"
    by (simp add: fresh_process_def str_int_3)
  show ?thesis
    using HPUParallelStrategy_environment_lifecycle
            [where super_setup_environment = "recording_super ''setup_environment'' []"
               and self = "fresh_process 3" and ?s1.0 = after_setup
               and super_teardown = "recording_super ''teardown'' []"
               and s_later = after_setup, OF fr setup_fresh_process td]
      setup_fresh_process b r
    by simp
qed

text \<open>
  Claim C10 (the tensor argument of \<^verbatim>\<open>backward\<close>). The outcome of
  \<^verbatim>\<open>HPUParallelStrategy.backward\<close> does not depend on the tensor it is called with,
  whatever the superclass method does; a superclass method that records its keyword
  arguments records the class \<^verbatim>\<open>Tensor\<close> under \<^verbatim>\<open>tensor\<close>; and the class is not a
  tensor object.
\<close>
theorem HPUParallelStrategy_backward_forwards_class:
  "HPUParallelStrategy_backward c super_backward tensor module args kwargs self =
     HPUParallelStrategy_backward c super_backward tensor' module args kwargs self \<and>
   (HPU_AVAILABLE c \<longrightarrow>
      (\<exists>s1. HPUParallelStrategy_backward c (recording_super ''backward'')
               tensor module args kwargs self = Inr s1 \<and>
         trace s1 =
           trace self @
           SuperCall ''backward''
             [(''tensor'', PyClass ''Tensor''), (''module'', module),
              (''args'', PyTuple args), (''kwargs'', PyDict kwargs)] #
           (if TORCH_LESSER_EQUAL_1_13_1 c then [MarkStep] else []))) \<and>
   PyClass ''Tensor'' \<noteq> PyObj t"
  by (simp add: HPUParallelStrategy_backward_def recording_super_def htcore_mark_step_def)

text \<open>Two different loss tensors give the same recorded call.\<close>
theorem HPUParallelStrategy_backward_forwards_class_witness:
  "HPU_AVAILABLE torch_2_0 \<and>
   HPUParallelStrategy_backward torch_2_0 (recording_super ''backward'')
       (PyObj 7) PyNone [] [] (fresh_process 0) =
     HPUParallelStrategy_backward torch_2_0 (recording_super ''backward'')
       (PyObj 9) PyNone [] [] (fresh_process 0) \<and>
   (\<exists>s1. HPUParallelStrategy_backward torch_2_0 (recording_super ''backward'')
            (PyObj 7) PyNone [] [] (fresh_process 0) = Inr s1 \<and>
      trace s1 = [SuperCall ''backward'' (backward_keywords PyNone)]) \<and>
   PyClass ''Tensor'' \<noteq> PyObj 7"
proof -
  have h: "HPU_AVAILABLE torch_2_0"
    by (simp add: torch_2_0_def)
  have t: "\<not> TORCH_LESSER_EQUAL_1_13_1 torch_2_0"
    by (simp add: torch_2_0_def)
  have e: "trace (fresh_process 0) = []"
    by (simp add: fresh_process_def)
  note inst = HPUParallelStrategy_backward_forwards_class
            [where c = torch_2_0 and super_backward = "recording_super ''backward''"
               and tensor = "PyObj 7" and tensor' = "PyObj 9" and module = PyNone
               and args = "[]" and kwargs = "[]" and self = "fresh_process 0" and t = 7]
  from inst have eq:
    "HPUParallelStrategy_backward torch_2_0 (recording_super ''backward'')
       (PyObj 7) PyNone [] [] (fresh_process 0) =
     HPUParallelStrategy_backward torch_2_0 (recording_super ''backward'')
       (PyObj 9) PyNone [] [] (fresh_process 0)"
    by blast
  from inst h obtain s1 where s1:
    "HPUParallelStrategy_backward torch_2_0 (recording_super ''backward'')
       (PyObj 7) PyNone [] [] (fresh_process 0) = Inr s1"
    "trace s1 =
       trace (fresh_process 0) @
       SuperCall ''backward''
         [(''tensor'', PyClass ''Tensor''), (''module'', PyNone),
          (''args'', PyTuple []), (''kwargs'', PyDict [])] #
       (if TORCH_LESSER_EQUAL_1_13_1 torch_2_0 then [MarkStep] else [])"
    by blast
  have tr: "trace s1 = [SuperCall ''backward'' (backward_keywords PyNone)]"
    using s1(2) t e by (simp add: backward_keywords_def)
  have ne: "PyClass ''Tensor'' \<noteq> PyObj 7"
    by simp
  from h eq s1(1) tr ne show ?thesis
    by blast
qed

end
